theory Spec2Isabelle
  imports Complex_Main "HOL-Library.AList"
begin

section \<open>YAML documents\<close>

text \<open>
  A document loaded by the YAML safe loader is a tree of Python values: \<open>dict\<close>s with string
  keys, \<open>list\<close>s and scalars. A \<open>dict\<close> keeps its insertion order and holds each key once, so a
  mapping is an association list, and \<open>wf_tree\<close> says that no mapping repeats a key. Python's
  \<open>None\<close> is the scalar \<open>SNull\<close>. The documents are trees: no node is shared between two
  positions, so an in-place update of a node is the update of the one position it occupies.
\<close>

datatype scalar = SNull | SBool bool | SInt int | SFloat real | SStr string

datatype tree = Scalar scalar | Sequence "tree list" | Mapping "(string \<times> tree) list"

fun wf_tree :: "tree \<Rightarrow> bool"
  and wf_list :: "tree list \<Rightarrow> bool"
  and wf_items :: "(string \<times> tree) list \<Rightarrow> bool" where
  "wf_tree (Scalar s) = True"
| "wf_tree (Sequence xs) = wf_list xs"
| "wf_tree (Mapping kvs) = (distinct (map fst kvs) \<and> wf_items kvs)"
| "wf_list [] = True"
| "wf_list (x # xs) = (wf_tree x \<and> wf_list xs)"
| "wf_items [] = True"
| "wf_items ((k, v) # kvs) = (wf_tree v \<and> wf_items kvs)"

text \<open>\<open>list(schema.keys())\<close> of a \<open>dict\<close>; other values have no keys.\<close>

fun keys :: "tree \<Rightarrow> string list" where
  "keys (Mapping kvs) = map fst kvs"
| "keys (Sequence xs) = []"
| "keys (Scalar s) = []"

fun is_mapping :: "tree \<Rightarrow> bool" where
  "is_mapping (Mapping kvs) = True"
| "is_mapping (Sequence xs) = False"
| "is_mapping (Scalar s) = False"

text \<open>
  Positions in a document: a path of mapping keys and sequence indices, followed from the root.
\<close>

datatype step = Key string | Idx nat

fun child :: "tree \<Rightarrow> step \<Rightarrow> tree option" where
  "child (Mapping kvs) (Key k) = map_of kvs k"
| "child (Sequence xs) (Idx i) = (if i < length xs then Some (xs ! i) else None)"
| "child t s = None"

fun at_path :: "tree \<Rightarrow> step list \<Rightarrow> tree option" where
  "at_path t [] = Some t"
| "at_path t (s # ss) = (case child t s of None \<Rightarrow> None | Some c \<Rightarrow> at_path c ss)"

section \<open>The extension pruner\<close>

definition K8S_SCHEMA_EXTENSIONS :: "string list" where
  "K8S_SCHEMA_EXTENSIONS =
     [''x-kubernetes-embedded-resource'',
      ''x-kubernetes-int-or-string'',
      ''x-kubernetes-preserve-unknown-fields'',
      ''x-kubernetes-list-map-keys'',
      ''x-kubernetes-list-type'',
      ''x-kubernetes-map-type'',
      ''x-kubernetes-validator'']"

text \<open>\<open>s.startswith(p)\<close>.\<close>

fun startswith :: "string \<Rightarrow> string \<Rightarrow> bool" where
  "startswith s [] = True"
| "startswith [] (p # ps) = False"
| "startswith (c # cs) (p # ps) = (c = p \<and> startswith cs ps)"

text \<open>
  \<open>remove_k8s_extentions\<close> mutates its argument and returns nothing; the model returns the
  value the argument holds afterwards. The loop runs over a snapshot of the keys, deleting the
  entry of a key or recursing into its value; \<open>remove_k8s_extentions_items\<close> is that loop over
  the entries of the mapping. A value that is not a \<open>dict\<close> is left alone: the function has no
  branch for lists.
\<close>

fun remove_k8s_extentions :: "tree \<Rightarrow> tree"
  and remove_k8s_extentions_items :: "(string \<times> tree) list \<Rightarrow> (string \<times> tree) list" where
  "remove_k8s_extentions (Mapping kvs) = Mapping (remove_k8s_extentions_items kvs)"
| "remove_k8s_extentions (Sequence xs) = Sequence xs"
| "remove_k8s_extentions (Scalar s) = Scalar s"
| "remove_k8s_extentions_items [] = []"
| "remove_k8s_extentions_items ((k, v) # kvs) =
     (if startswith k ''x-kubernetes-'' \<and> k \<notin> set K8S_SCHEMA_EXTENSIONS
      then remove_k8s_extentions_items kvs
      else (k, remove_k8s_extentions v) # remove_k8s_extentions_items kvs)"

text \<open>The keys the pruner deletes.\<close>

definition vendor_key :: "string \<Rightarrow> bool" where
  "vendor_key k = (startswith k ''x-kubernetes-'' \<and> k \<notin> set K8S_SCHEMA_EXTENSIONS)"

text \<open>
  \<open>has_vendor_key t\<close>: some mapping reachable from \<open>t\<close> through mapping values and sequence
  elements has a key the pruner deletes. \<open>has_vendor_key_maps t\<close>: the same, reaching through
  mapping values only.
\<close>

fun has_vendor_key :: "tree \<Rightarrow> bool"
  and has_vendor_key_list :: "tree list \<Rightarrow> bool"
  and has_vendor_key_items :: "(string \<times> tree) list \<Rightarrow> bool" where
  "has_vendor_key (Scalar s) = False"
| "has_vendor_key (Sequence xs) = has_vendor_key_list xs"
| "has_vendor_key (Mapping kvs) = has_vendor_key_items kvs"
| "has_vendor_key_list [] = False"
| "has_vendor_key_list (x # xs) = (has_vendor_key x \<or> has_vendor_key_list xs)"
| "has_vendor_key_items [] = False"
| "has_vendor_key_items ((k, v) # kvs) =
     (vendor_key k \<or> has_vendor_key v \<or> has_vendor_key_items kvs)"

fun has_vendor_key_maps :: "tree \<Rightarrow> bool"
  and has_vendor_key_maps_items :: "(string \<times> tree) list \<Rightarrow> bool" where
  "has_vendor_key_maps (Scalar s) = False"
| "has_vendor_key_maps (Sequence xs) = False"
| "has_vendor_key_maps (Mapping kvs) = has_vendor_key_maps_items kvs"
| "has_vendor_key_maps_items [] = False"
| "has_vendor_key_maps_items ((k, v) # kvs) =
     (vendor_key k \<or> has_vendor_key_maps v \<or> has_vendor_key_maps_items kvs)"

text \<open>
  \<open>contains_pair K V t\<close>: some mapping reachable from \<open>t\<close> through mapping values and sequence
  elements has the entry \<open>K: V\<close>.
\<close>

fun contains_pair :: "string \<Rightarrow> tree \<Rightarrow> tree \<Rightarrow> bool"
  and contains_pair_list :: "string \<Rightarrow> tree \<Rightarrow> tree list \<Rightarrow> bool"
  and contains_pair_items :: "string \<Rightarrow> tree \<Rightarrow> (string \<times> tree) list \<Rightarrow> bool" where
  "contains_pair K V (Scalar s) = False"
| "contains_pair K V (Sequence xs) = contains_pair_list K V xs"
| "contains_pair K V (Mapping kvs) = contains_pair_items K V kvs"
| "contains_pair_list K V [] = False"
| "contains_pair_list K V (x # xs) = (contains_pair K V x \<or> contains_pair_list K V xs)"
| "contains_pair_items K V [] = False"
| "contains_pair_items K V ((k, v) # kvs) =
     ((k = K \<and> v = V) \<or> contains_pair K V v \<or> contains_pair_items K V kvs)"

text \<open>\<open>has_key k t\<close>: some mapping anywhere in \<open>t\<close> has the key \<open>k\<close>.\<close>

fun has_key :: "string \<Rightarrow> tree \<Rightarrow> bool"
  and has_key_list :: "string \<Rightarrow> tree list \<Rightarrow> bool"
  and has_key_items :: "string \<Rightarrow> (string \<times> tree) list \<Rightarrow> bool" where
  "has_key K (Scalar s) = False"
| "has_key K (Sequence xs) = has_key_list K xs"
| "has_key K (Mapping kvs) = has_key_items K kvs"
| "has_key_list K [] = False"
| "has_key_list K (x # xs) = (has_key K x \<or> has_key_list K xs)"
| "has_key_items K [] = False"
| "has_key_items K ((k, v) # kvs) = (k = K \<or> has_key K v \<or> has_key_items K kvs)"

text \<open>
  A path survives pruning when no key the pruner deletes occurs on it before its first
  sequence index; it is \<open>keys_only\<close> when it passes through no sequence.
\<close>

fun survives :: "step list \<Rightarrow> bool" where
  "survives [] = True"
| "survives (Idx i # ss) = True"
| "survives (Key k # ss) = (\<not> vendor_key k \<and> survives ss)"

fun keys_only :: "step list \<Rightarrow> bool" where
  "keys_only [] = True"
| "keys_only (Idx i # ss) = False"
| "keys_only (Key k # ss) = keys_only ss"

section \<open>The description pruner\<close>

text \<open>
  \<open>remove_k8s_descriptions\<close> mutates \<open>schema\<close> and reads \<open>source_schema\<close>; the model returns the
  value \<open>schema\<close> holds afterwards. \<open>None\<close> as the source is \<open>Scalar SNull\<close>.
\<close>

fun remove_k8s_descriptions :: "tree \<Rightarrow> tree \<Rightarrow> tree"
  and remove_k8s_descriptions_items ::
    "(string \<times> tree) list \<Rightarrow> tree \<Rightarrow> (string \<times> tree) list" where
  "remove_k8s_descriptions (Mapping kvs) source_schema =
     Mapping (remove_k8s_descriptions_items kvs source_schema)"
| "remove_k8s_descriptions (Sequence xs) source_schema = Sequence xs"
| "remove_k8s_descriptions (Scalar s) source_schema = Scalar s"
| "remove_k8s_descriptions_items [] source_schema = []"
| "remove_k8s_descriptions_items ((k, v) # kvs) source_schema =
     (case (case source_schema of Mapping src \<Rightarrow> map_of src k | _ \<Rightarrow> None) of
        Some sv \<Rightarrow>
          (k, remove_k8s_descriptions v sv) # remove_k8s_descriptions_items kvs source_schema
      | None \<Rightarrow>
          if k = ''description'' then remove_k8s_descriptions_items kvs source_schema
          else (k, remove_k8s_descriptions v (Scalar SNull))
                 # remove_k8s_descriptions_items kvs source_schema)"

section \<open>Errors and item access\<close>

text \<open>
  The exceptions the driver can raise: the two \<open>TypeError\<close>s it raises itself, the
  \<open>KeyError\<close> and \<open>TypeError\<close> of subscripting, \<open>OSError\<close> from opening a file, and whatever
  the YAML, resolving-parser and JSON Patch libraries raise (\<open>LibraryError\<close>).
\<close>

datatype error = TypeError string | KeyError string | OSError string | LibraryError string

definition bind_result :: "error + 'a \<Rightarrow> ('a \<Rightarrow> error + 'b) \<Rightarrow> error + 'b" where
  "bind_result m f = (case m of Inl e \<Rightarrow> Inl e | Inr x \<Rightarrow> f x)"

text \<open>
  The names Python prints for the types of scalars, and a name between single quotes, as the
  messages of its \<open>TypeError\<close>s have it.
\<close>

fun type_name :: "scalar \<Rightarrow> string" where
  "type_name SNull = ''NoneType''"
| "type_name (SBool b) = ''bool''"
| "type_name (SInt i) = ''int''"
| "type_name (SFloat x) = ''float''"
| "type_name (SStr s) = ''str''"

definition quoted :: "string \<Rightarrow> string" where
  "quoted s = CHR 0x27 # s @ [CHR 0x27]"

text \<open>
  \<open>obj[k]\<close> with a string \<open>k\<close>. The message for a string is the one of Python 3.11 and later;
  earlier versions end it after \<open>integers\<close>.
\<close>

fun getitem :: "tree \<Rightarrow> string \<Rightarrow> error + tree" where
  "getitem (Mapping kvs) k =
     (case map_of kvs k of Some v \<Rightarrow> Inr v | None \<Rightarrow> Inl (KeyError k))"
| "getitem (Sequence xs) k =
     Inl (TypeError ''list indices must be integers or slices, not str'')"
| "getitem (Scalar (SStr s)) k =
     Inl (TypeError (''string indices must be integers, not '' @ quoted ''str''))"
| "getitem (Scalar s) k =
     Inl (TypeError (quoted (type_name s) @ '' object is not subscriptable''))"

text \<open>
  \<open>obj[k] = v\<close> with a string \<open>k\<close>: a \<open>dict\<close> replaces the value of a key it has, in place,
  and appends a new key.
\<close>

fun setitem :: "tree \<Rightarrow> string \<Rightarrow> tree \<Rightarrow> error + tree" where
  "setitem (Mapping kvs) k v = Inr (Mapping (AList.update k v kvs))"
| "setitem (Sequence xs) k v =
     Inl (TypeError ''list indices must be integers or slices, not str'')"
| "setitem (Scalar s) k v =
     Inl (TypeError (quoted (type_name s) @ '' object does not support item assignment''))"

text \<open>
  \<open>for x in obj\<close>: the elements of a list, the keys of a \<open>dict\<close>, the characters of a string.
\<close>

fun iterate :: "tree \<Rightarrow> error + tree list" where
  "iterate (Sequence xs) = Inr xs"
| "iterate (Mapping kvs) = Inr (map (\<lambda>kv. Scalar (SStr (fst kv))) kvs)"
| "iterate (Scalar (SStr s)) = Inr (map (\<lambda>c. Scalar (SStr [c])) s)"
| "iterate (Scalar s) = Inl (TypeError (quoted (type_name s) @ '' object is not iterable''))"

section \<open>The libraries and the file system\<close>

text \<open>
  The driver calls three libraries whose code is not part of the program; they are parameters
  of the model. \<open>ResolvingParser\<close> takes the text of the temporary file and gives the parser's
  \<open>specification\<close>; \<open>JsonPatch_bool\<close> is the truth value of a patch object; \<open>str_format\<close> is
  what \<open>'{}'.format(v)\<close> inserts for \<open>v\<close>.
\<close>

record library =
  yaml_load :: "string \<Rightarrow> error + tree"
  yaml_dump :: "tree \<Rightarrow> string"
  ResolvingParser :: "string \<Rightarrow> error + tree"
  JsonPatch_from_string :: "string \<Rightarrow> error + tree"
  JsonPatch_bool :: "tree \<Rightarrow> bool"
  JsonPatch_apply :: "tree \<Rightarrow> tree \<Rightarrow> error + tree"
  str_format :: "tree \<Rightarrow> string"

record world =
  files :: "(string \<times> string) list"
  readonly :: "string list"
  stdin :: string
  stdout :: string

definition open_read :: "world \<Rightarrow> string \<Rightarrow> error + string" where
  "open_read w path =
     (case map_of (files w) path of None \<Rightarrow> Inl (OSError path) | Some text \<Rightarrow> Inr text)"

section \<open>Resolving one schema\<close>

text \<open>The skeleton, as the YAML loader returns it.\<close>

definition OPENAPI_V3_SKELETON :: tree where
  "OPENAPI_V3_SKELETON =
     Mapping [(''openapi'', Scalar (SStr ''3.0.0'')),
              (''info'', Mapping [(''version'', Scalar (SStr ''v1'')),
                                  (''title'', Scalar (SStr ''CRD''))]),
              (''paths'', Mapping []),
              (''components'',
                 Mapping [(''schemas'', Mapping [(''crd_schema'', Scalar SNull)])])]"

definition parse_and_resolve :: "library \<Rightarrow> tree \<Rightarrow> bool \<Rightarrow> error + tree" where
  "parse_and_resolve lib schema remove_desciptions =
     bind_result (getitem OPENAPI_V3_SKELETON ''components'') (\<lambda>components.
     bind_result (getitem components ''schemas'') (\<lambda>schemas.
     bind_result (setitem schemas ''crd_schema'' schema) (\<lambda>schemas.
     bind_result (setitem components ''schemas'' schemas) (\<lambda>components.
     bind_result (setitem OPENAPI_V3_SKELETON ''components'' components) (\<lambda>openapi_spec.
     bind_result (ResolvingParser lib (yaml_dump lib openapi_spec)) (\<lambda>specification.
     bind_result (getitem specification ''components'') (\<lambda>components.
     bind_result (getitem components ''schemas'') (\<lambda>schemas.
     bind_result (getitem schemas ''crd_schema'') (\<lambda>resolved_schema.
       let resolved_schema = remove_k8s_extentions resolved_schema;
           resolved_schema = (if remove_desciptions
                              then remove_k8s_descriptions resolved_schema schema
                              else resolved_schema)
       in Inr resolved_schema)))))))))"

section \<open>The driver\<close>

definition load_source :: "library \<Rightarrow> world \<Rightarrow> string \<Rightarrow> error + tree" where
  "load_source lib w source =
     (if source \<noteq> ''-'' then bind_result (open_read w source) (yaml_load lib)
      else yaml_load lib (stdin w))"

text \<open>
  Lines 110 to 112: a path that is a non-empty string is opened and parsed into a patch
  object; \<open>None\<close> and the empty string are false and stay.
\<close>

definition load_jsonpatch ::
  "library \<Rightarrow> world \<Rightarrow> string option \<Rightarrow> error + tree option" where
  "load_jsonpatch lib w jsonpatch =
     (case jsonpatch of
        Some (c # cs) \<Rightarrow>
          bind_result (open_read w (c # cs)) (\<lambda>text.
          bind_result (JsonPatch_from_string lib text) (\<lambda>patch. Inr (Some patch)))
      | _ \<Rightarrow> Inr None)"

text \<open>Lines 129 and 130.\<close>

definition apply_jsonpatch :: "library \<Rightarrow> tree option \<Rightarrow> tree \<Rightarrow> error + tree" where
  "apply_jsonpatch lib jsonpatch source =
     (case jsonpatch of
        Some patch \<Rightarrow>
          if JsonPatch_bool lib patch then JsonPatch_apply lib patch source else Inr source
      | None \<Rightarrow> Inr source)"

text \<open>The loop of lines 122 to 125 over the elements of \<open>spec.versions\<close>.\<close>

fun resolve_versions :: "library \<Rightarrow> bool \<Rightarrow> tree list \<Rightarrow> error + tree list" where
  "resolve_versions lib remove_descriptions [] = Inr []"
| "resolve_versions lib remove_descriptions (version # rest) =
     bind_result (getitem version ''schema'') (\<lambda>schema_holder.
     bind_result (getitem schema_holder ''openAPIV3Schema'') (\<lambda>schema.
     bind_result (parse_and_resolve lib schema remove_descriptions) (\<lambda>resolved_schema.
     bind_result (setitem schema_holder ''openAPIV3Schema'' resolved_schema) (\<lambda>schema_holder.
     bind_result (setitem version ''schema'' schema_holder) (\<lambda>version.
     bind_result (resolve_versions lib remove_descriptions rest) (\<lambda>rest.
       Inr (version # rest)))))))"

text \<open>
  Lines 114 to 127. Iterating a \<open>dict\<close> or a string gives strings, which cannot be
  subscripted by \<open>'schema'\<close>: the loop then ends without an error only when it has nothing to
  visit, and the document stays as it is.
\<close>

definition resolve_schemas :: "library \<Rightarrow> tree \<Rightarrow> bool \<Rightarrow> error + tree" where
  "resolve_schemas lib source remove_descriptions =
     bind_result (getitem source ''kind'') (\<lambda>kind.
       if kind \<noteq> Scalar (SStr ''CustomResourceDefinition'')
       then Inl (TypeError ''Input file is not a CustomResourceDefinition.'')
       else
     bind_result (getitem source ''apiVersion'') (\<lambda>apiVersion.
       if apiVersion = Scalar (SStr ''apiextensions.k8s.io/v1beta1'') then
         bind_result (getitem source ''spec'') (\<lambda>spec.
         bind_result (getitem spec ''validation'') (\<lambda>validation.
         bind_result (getitem validation ''openAPIV3Schema'') (\<lambda>schema.
         bind_result (parse_and_resolve lib schema remove_descriptions) (\<lambda>resolved_schema.
         bind_result (setitem validation ''openAPIV3Schema'' resolved_schema) (\<lambda>validation.
         bind_result (setitem spec ''validation'' validation) (\<lambda>spec.
           setitem source ''spec'' spec))))))
       else if apiVersion = Scalar (SStr ''apiextensions.k8s.io/v1'') then
         bind_result (getitem source ''spec'') (\<lambda>spec.
         bind_result (getitem spec ''versions'') (\<lambda>versions.
         bind_result (iterate versions) (\<lambda>items.
         bind_result (resolve_versions lib remove_descriptions items) (\<lambda>items.
           case versions of
             Sequence xs \<Rightarrow>
               bind_result (setitem spec ''versions'' (Sequence items)) (\<lambda>spec.
                 setitem source ''spec'' spec)
           | _ \<Rightarrow> Inr source))))
       else
         bind_result (getitem source ''version'') (\<lambda>version.
           Inl (TypeError (''Unsupported CRD version '' @ str_format lib version)))))"

text \<open>
  Lines 101 to 130: the document that is handed to the serializer. Line 109 assigns \<open>None\<close>
  to \<open>jsonpatch\<close>, over the argument.
\<close>

definition resolved_document ::
  "library \<Rightarrow> world \<Rightarrow> string \<Rightarrow> string option \<Rightarrow> bool \<Rightarrow> error + tree" where
  "resolved_document lib w source jsonpatch remove_descriptions =
     bind_result (load_source lib w source) (\<lambda>source.
     let jsonpatch = None in
     bind_result (load_jsonpatch lib w jsonpatch) (\<lambda>jsonpatch.
     bind_result (resolve_schemas lib source remove_descriptions) (\<lambda>source.
       apply_jsonpatch lib jsonpatch source)))"

text \<open>Lines 132 to 136.\<close>

definition write_destination ::
  "library \<Rightarrow> world \<Rightarrow> string \<Rightarrow> tree \<Rightarrow> (error + unit) \<times> world" where
  "write_destination lib w destination document =
     (if destination \<noteq> ''-'' then
        (if destination \<in> set (readonly w) then (Inl (OSError destination), w)
         else (Inr (),
               w\<lparr>files := AList.update destination (yaml_dump lib document) (files w)\<rparr>))
      else (Inr (), w\<lparr>stdout := stdout w @ yaml_dump lib document\<rparr>))"

text \<open>
  \<open>resolve\<close> returns how the call ends and the file system it leaves. An exception raised
  before line 132 leaves the file system as it was.
\<close>

definition resolve ::
  "library \<Rightarrow> world \<Rightarrow> string \<Rightarrow> string \<Rightarrow> string option \<Rightarrow> bool
     \<Rightarrow> (error + unit) \<times> world" where
  "resolve lib w source destination jsonpatch remove_descriptions =
     (case resolved_document lib w source jsonpatch remove_descriptions of
        Inl e \<Rightarrow> (Inl e, w)
      | Inr document \<Rightarrow> write_destination lib w destination document)"

section \<open>Example inputs\<close>

definition example_schema :: tree where
  "example_schema = Mapping [(''type'', Scalar (SStr ''object''))]"

definition example_crd :: "string \<Rightarrow> tree" where
  "example_crd apiVersion =
     Mapping [(''apiVersion'', Scalar (SStr apiVersion)),
              (''kind'', Scalar (SStr ''CustomResourceDefinition'')),
              (''metadata'', Mapping [(''name'', Scalar (SStr ''widgets.example.com'')),
                                      (''labels'', Mapping [])]),
              (''spec'', Mapping [(''group'', Scalar (SStr ''example.com'')),
                 (''versions'', Sequence [Mapping [(''name'', Scalar (SStr ''v1'')),
                    (''schema'', Mapping [(''openAPIV3Schema'', example_schema)])]])])]"

definition example_crd_patched :: tree where
  "example_crd_patched =
     Mapping [(''apiVersion'', Scalar (SStr ''apiextensions.k8s.io/v1'')),
              (''kind'', Scalar (SStr ''CustomResourceDefinition'')),
              (''metadata'', Mapping [(''name'', Scalar (SStr ''widgets.example.com'')),
                 (''labels'', Mapping [(''foo'', Scalar (SStr ''bar''))])]),
              (''spec'', Mapping [(''group'', Scalar (SStr ''example.com'')),
                 (''versions'', Sequence [Mapping [(''name'', Scalar (SStr ''v1'')),
                    (''schema'', Mapping [(''openAPIV3Schema'', example_schema)])]])])]"

definition example_configmap :: tree where
  "example_configmap =
     Mapping [(''apiVersion'', Scalar (SStr ''v1'')),
              (''kind'', Scalar (SStr ''ConfigMap'')),
              (''metadata'', Mapping [(''name'', Scalar (SStr ''settings''))]),
              (''data'', Mapping [(''colour'', Scalar (SStr ''blue''))])]"

definition example_patch :: tree where
  "example_patch =
     Sequence [Mapping [(''op'', Scalar (SStr ''add'')),
                        (''path'', Scalar (SStr ''/metadata/labels/foo'')),
                        (''value'', Scalar (SStr ''bar''))]]"

text \<open>
  Libraries that answer as the real ones do on the example inputs: the loader returns
  \<open>document\<close>, the resolving parser returns the skeleton around the example schema, which has
  no reference to resolve, and applying the example patch gives the patched document.
\<close>

definition example_library :: "tree \<Rightarrow> library" where
  "example_library document =
     \<lparr>yaml_load = (\<lambda>text. Inr document),
      yaml_dump = (\<lambda>t. ''(yaml)''),
      ResolvingParser = (\<lambda>text. Inr (Mapping
         [(''openapi'', Scalar (SStr ''3.0.0'')),
          (''info'', Mapping [(''version'', Scalar (SStr ''v1'')),
                              (''title'', Scalar (SStr ''CRD''))]),
          (''paths'', Mapping []),
          (''components'',
             Mapping [(''schemas'', Mapping [(''crd_schema'', example_schema)])])])),
      JsonPatch_from_string = (\<lambda>text. Inr example_patch),
      JsonPatch_bool = (\<lambda>patch. patch \<noteq> Sequence []),
      JsonPatch_apply = (\<lambda>patch t. Inr example_crd_patched),
      str_format = (\<lambda>t. ''(str)'')\<rparr>"

definition example_world :: world where
  "example_world =
     \<lparr>files = [(''crd.yaml'', ''(yaml)''), (''patch.json'', ''(json)'')],
      readonly = [], stdin = [], stdout = []\<rparr>"

section \<open>Properties of the extension pruner\<close>

lemma map_of_remove_items:
  "map_of (remove_k8s_extentions_items kvs) k =
     (if vendor_key k then None else map_option remove_k8s_extentions (map_of kvs k))"
  by (induction kvs) (auto simp: vendor_key_def)

lemma keys_remove_items:
  "map fst (remove_k8s_extentions_items kvs) = filter (\<lambda>k. \<not> vendor_key k) (map fst kvs)"
  by (induction kvs) (auto simp: vendor_key_def)

lemma keys_remove_subset: "set (keys (remove_k8s_extentions t)) \<subseteq> set (keys t)"
  by (cases t) (auto simp: keys_remove_items)

lemma is_mapping_remove: "is_mapping (remove_k8s_extentions t) = is_mapping t"
  by (cases t) auto

lemma remove_not_mapping: "\<not> is_mapping t \<Longrightarrow> remove_k8s_extentions t = t"
  by (cases t) auto

lemma child_remove:
  "child (remove_k8s_extentions t) s = Some c' \<Longrightarrow>
     \<exists>c. child t s = Some c \<and> (c' = c \<or> c' = remove_k8s_extentions c)"
  by (cases t; cases s) (auto simp: map_of_remove_items split: if_splits)

text \<open>
  Whatever stands at a path after pruning stood there before, either as it is now or as the
  value whose pruning it is.
\<close>

lemma at_path_remove_origin:
  "at_path (remove_k8s_extentions t) p = Some r \<Longrightarrow>
     \<exists>orig. at_path t p = Some orig \<and> (r = orig \<or> r = remove_k8s_extentions orig)"
proof (induction p arbitrary: t)
  case Nil
  then show ?case by auto
next
  case (Cons s ss)
  from Cons.prems obtain c' where c': "child (remove_k8s_extentions t) s = Some c'"
    and r: "at_path c' ss = Some r"
    by (auto split: option.splits)
  from child_remove[OF c'] obtain c where c: "child t s = Some c"
    and cc: "c' = c \<or> c' = remove_k8s_extentions c" by blast
  from cc show ?case
  proof
    assume "c' = c"
    with r c show ?thesis by auto
  next
    assume "c' = remove_k8s_extentions c"
    with r Cons.IH[of c] c show ?thesis by auto
  qed
qed

lemma no_vendor_key_maps_after:
  "\<not> has_vendor_key_maps (remove_k8s_extentions t)"
  "\<not> has_vendor_key_maps_items (remove_k8s_extentions_items kvs)"
  by (induction t and kvs rule: remove_k8s_extentions_remove_k8s_extentions_items.induct)
     (auto simp: vendor_key_def)

lemma remove_clean:
  "\<not> has_vendor_key_maps t \<Longrightarrow> remove_k8s_extentions t = t"
  "\<not> has_vendor_key_maps_items kvs \<Longrightarrow> remove_k8s_extentions_items kvs = kvs"
  by (induction t and kvs rule: remove_k8s_extentions_remove_k8s_extentions_items.induct)
     (auto simp: vendor_key_def)

text \<open>
  Along a surviving path the pruner acts on the value it finds: it prunes it when the path
  runs through mappings only, and leaves it alone once the path has entered a sequence.
\<close>

lemma at_path_remove_survives:
  "survives p \<Longrightarrow>
     at_path (remove_k8s_extentions t) p =
       map_option (\<lambda>x. if keys_only p then remove_k8s_extentions x else x) (at_path t p)"
proof (induction p arbitrary: t)
  case Nil
  then show ?case by simp
next
  case (Cons s ss)
  show ?case
  proof (cases s)
    case (Key k)
    with Cons.prems have nv: "\<not> vendor_key k" and sv: "survives ss" by auto
    show ?thesis
    proof (cases t)
      case (Mapping kvs)
      then show ?thesis using Key nv Cons.IH[OF sv]
        by (auto simp: map_of_remove_items split: option.splits)
    qed (simp_all add: Key)
  next
    case (Idx i)
    then show ?thesis by (cases t) (auto simp: option.map_ident split: option.splits)
  qed
qed

lemma at_path_append:
  "at_path t (p @ q) = (case at_path t p of None \<Rightarrow> None | Some c \<Rightarrow> at_path c q)"
  by (induction p arbitrary: t) (auto split: option.splits)

lemma survives_append_key: "survives p \<Longrightarrow> \<not> vendor_key K \<Longrightarrow> survives (p @ [Key K])"
  by (induction p rule: survives.induct) auto

lemma keys_only_append_key: "keys_only (p @ [Key K]) = keys_only p"
  by (induction p rule: keys_only.induct) auto

lemma allow_listed_not_vendor: "K \<in> set K8S_SCHEMA_EXTENSIONS \<Longrightarrow> \<not> vendor_key K"
  by (simp add: vendor_key_def)

text \<open>
  Claim C3, as stated, says that after \<open>remove_k8s_extentions\<close> no mapping reachable through
  mapping values and sequence elements has a key that starts with \<open>x-kubernetes-\<close> and is not
  allow-listed. It fails: the function does not enter sequences, and the schema
  \<open>{allOf: [{x-kubernetes-foo: true}]}\<close> comes back as it was.
\<close>

theorem remove_k8s_extentions_sequence_counterexample:
  "has_vendor_key (remove_k8s_extentions
     (Mapping [(''allOf'', Sequence [Mapping [(''x-kubernetes-foo'', Scalar (SBool True))]])]))"
  by (simp add: vendor_key_def K8S_SCHEMA_EXTENSIONS_def)

text \<open>
  Claim C3, amended: after \<open>remove_k8s_extentions\<close> no mapping reachable from the root through
  mapping values alone has a key that starts with \<open>x-kubernetes-\<close> and is not allow-listed.
  Sequences are not traversed: a sequence that stands at a surviving path (no deleted key on
  it before its first sequence index) stands there unchanged afterwards, and so does whatever
  stands at a surviving path that passes through a sequence, a vendor key inside a sequence
  element included.
\<close>

theorem remove_k8s_extentions_prunes_through_mappings:
  "\<not> has_vendor_key_maps (remove_k8s_extentions t)
   \<and> (survives p \<and> at_path t p = Some (Sequence xs) \<longrightarrow>
        at_path (remove_k8s_extentions t) p = Some (Sequence xs))
   \<and> (survives p \<and> \<not> keys_only p \<longrightarrow>
        at_path (remove_k8s_extentions t) p = at_path t p)"
proof (intro conjI impI)
  show "\<not> has_vendor_key_maps (remove_k8s_extentions t)"
    by (rule no_vendor_key_maps_after(1))
next
  assume "survives p \<and> at_path t p = Some (Sequence xs)"
  then show "at_path (remove_k8s_extentions t) p = Some (Sequence xs)"
    using at_path_remove_survives[of p t] by simp
next
  assume "survives p \<and> \<not> keys_only p"
  then show "at_path (remove_k8s_extentions t) p = at_path t p"
    using at_path_remove_survives[of p t] by (simp add: option.map_ident)
qed

theorem remove_k8s_extentions_prunes_through_mappings_witness:
  "\<not> has_vendor_key_maps (remove_k8s_extentions
       (Mapping [(''x-kubernetes-foo'', Scalar SNull),
                 (''allOf'', Sequence [Mapping [(''x-kubernetes-bar'', Scalar (SBool True))]])]))
   \<and> survives [Key ''allOf'']
   \<and> at_path (Mapping [(''x-kubernetes-foo'', Scalar SNull),
                 (''allOf'', Sequence [Mapping [(''x-kubernetes-bar'', Scalar (SBool True))]])])
        [Key ''allOf'']
       = Some (Sequence [Mapping [(''x-kubernetes-bar'', Scalar (SBool True))]])
   \<and> at_path (remove_k8s_extentions
         (Mapping [(''x-kubernetes-foo'', Scalar SNull),
                 (''allOf'', Sequence [Mapping [(''x-kubernetes-bar'', Scalar (SBool True))]])]))
        [Key ''allOf'']
       = Some (Sequence [Mapping [(''x-kubernetes-bar'', Scalar (SBool True))]])
   \<and> survives [Key ''allOf'', Idx 0, Key ''x-kubernetes-bar'']
   \<and> \<not> keys_only [Key ''allOf'', Idx 0, Key ''x-kubernetes-bar'']
   \<and> at_path (remove_k8s_extentions
         (Mapping [(''x-kubernetes-foo'', Scalar SNull),
                 (''allOf'', Sequence [Mapping [(''x-kubernetes-bar'', Scalar (SBool True))]])]))
        [Key ''allOf'', Idx 0, Key ''x-kubernetes-bar'']
       = Some (Scalar (SBool True))"
  using remove_k8s_extentions_prunes_through_mappings
    [of "Mapping [(''x-kubernetes-foo'', Scalar SNull),
                 (''allOf'', Sequence [Mapping [(''x-kubernetes-bar'', Scalar (SBool True))]])]"
        "[Key ''allOf'']"
        "[Mapping [(''x-kubernetes-bar'', Scalar (SBool True))]]"]
    remove_k8s_extentions_prunes_through_mappings
    [of "Mapping [(''x-kubernetes-foo'', Scalar SNull),
                 (''allOf'', Sequence [Mapping [(''x-kubernetes-bar'', Scalar (SBool True))]])]"
        "[Key ''allOf'', Idx 0, Key ''x-kubernetes-bar'']"]
  by (simp add: vendor_key_def K8S_SCHEMA_EXTENSIONS_def)

text \<open>
  Claim C4, as stated, says that a pair \<open>K: V\<close> with an allow-listed key \<open>K\<close>, anywhere in a
  schema, is still there unchanged after \<open>remove_k8s_extentions\<close>, for every \<open>V\<close>. It fails in
  two ways: the value of an allow-listed key is itself pruned, and a pair below a deleted key
  goes with it.
\<close>

theorem allow_listed_pair_counterexample:
  "''x-kubernetes-list-type'' \<in> set K8S_SCHEMA_EXTENSIONS
   \<and> contains_pair ''x-kubernetes-list-type'' (Mapping [(''x-kubernetes-foo'', Scalar SNull)])
        (Mapping [(''x-kubernetes-list-type'', Mapping [(''x-kubernetes-foo'', Scalar SNull)])])
   \<and> \<not> contains_pair ''x-kubernetes-list-type'' (Mapping [(''x-kubernetes-foo'', Scalar SNull)])
        (remove_k8s_extentions
          (Mapping [(''x-kubernetes-list-type'', Mapping [(''x-kubernetes-foo'', Scalar SNull)])]))
   \<and> contains_pair ''x-kubernetes-list-type'' (Scalar (SStr ''set''))
        (Mapping [(''x-kubernetes-foo'',
                   Mapping [(''x-kubernetes-list-type'', Scalar (SStr ''set''))])])
   \<and> \<not> contains_pair ''x-kubernetes-list-type'' (Scalar (SStr ''set''))
        (remove_k8s_extentions
          (Mapping [(''x-kubernetes-foo'',
                     Mapping [(''x-kubernetes-list-type'', Scalar (SStr ''set''))])]))"
  by (simp add: K8S_SCHEMA_EXTENSIONS_def)

text \<open>
  Claim C4, amended: for each allow-listed key \<open>K\<close> and every mapping that stands at a
  surviving path (no deleted key on it before its first sequence index) and has the entry
  \<open>K: V\<close>, the key \<open>K\<close> is still at that place after \<open>remove_k8s_extentions\<close>. Its value is \<open>V\<close>
  unchanged when the path passes through a sequence, and the pruned \<open>V\<close> otherwise, which is
  \<open>V\<close> itself whenever \<open>V\<close> holds no deleted key reachable through mappings.
\<close>

theorem allow_listed_key_kept:
  assumes "K \<in> set K8S_SCHEMA_EXTENSIONS"
    and "survives p"
    and "at_path t p = Some (Mapping kvs)"
    and "map_of kvs K = Some V"
  shows "at_path (remove_k8s_extentions t) (p @ [Key K]) =
           Some (if keys_only p then remove_k8s_extentions V else V)
         \<and> (\<not> has_vendor_key_maps V \<longrightarrow> remove_k8s_extentions V = V)"
proof -
  have "survives (p @ [Key K])"
    using assms(1,2) by (simp add: survives_append_key allow_listed_not_vendor)
  from at_path_remove_survives[OF this, of t]
  show ?thesis using assms(3,4) by (simp add: at_path_append keys_only_append_key remove_clean)
qed

theorem allow_listed_key_kept_witness:
  "''x-kubernetes-list-type'' \<in> set K8S_SCHEMA_EXTENSIONS
   \<and> survives [Key ''properties'']
   \<and> at_path (Mapping [(''properties'',
          Mapping [(''x-kubernetes-list-type'', Scalar (SStr ''set'')),
                   (''x-kubernetes-foo'', Scalar SNull)])]) [Key ''properties'']
       = Some (Mapping [(''x-kubernetes-list-type'', Scalar (SStr ''set'')),
                        (''x-kubernetes-foo'', Scalar SNull)])
   \<and> map_of [(''x-kubernetes-list-type'', Scalar (SStr ''set'')),
              (''x-kubernetes-foo'', Scalar SNull)] ''x-kubernetes-list-type''
       = Some (Scalar (SStr ''set''))
   \<and> at_path (remove_k8s_extentions (Mapping [(''properties'',
          Mapping [(''x-kubernetes-list-type'', Scalar (SStr ''set'')),
                   (''x-kubernetes-foo'', Scalar SNull)])]))
        ([Key ''properties''] @ [Key ''x-kubernetes-list-type''])
       = Some (Scalar (SStr ''set''))"
  using allow_listed_key_kept
    [of "''x-kubernetes-list-type''" "[Key ''properties'']"
        "Mapping [(''properties'',
          Mapping [(''x-kubernetes-list-type'', Scalar (SStr ''set'')),
                   (''x-kubernetes-foo'', Scalar SNull)])]"
        "[(''x-kubernetes-list-type'', Scalar (SStr ''set'')),
          (''x-kubernetes-foo'', Scalar SNull)]"
        "Scalar (SStr ''set'')"]
  by (simp add: K8S_SCHEMA_EXTENSIONS_def vendor_key_def)

text \<open>
  Claim C7: \<open>remove_k8s_extentions\<close> is idempotent; a second application changes nothing.
\<close>

theorem remove_k8s_extentions_idempotent:
  "remove_k8s_extentions (remove_k8s_extentions t) = remove_k8s_extentions t"
proof -
  have "remove_k8s_extentions (remove_k8s_extentions t) = remove_k8s_extentions t"
    and "remove_k8s_extentions_items (remove_k8s_extentions_items kvs)
           = remove_k8s_extentions_items kvs" for t kvs
    by (induction t and kvs rule: remove_k8s_extentions_remove_k8s_extentions_items.induct) auto
  then show ?thesis by blast
qed

theorem remove_k8s_extentions_idempotent_witness:
  "remove_k8s_extentions (remove_k8s_extentions
      (Mapping [(''x-kubernetes-foo'', Scalar SNull), (''type'', Scalar (SStr ''object''))]))
   = Mapping [(''type'', Scalar (SStr ''object''))]"
  using remove_k8s_extentions_idempotent
    [of "Mapping [(''x-kubernetes-foo'', Scalar SNull), (''type'', Scalar (SStr ''object''))]"]
  by (simp add: K8S_SCHEMA_EXTENSIONS_def)

text \<open>
  Claim C10: \<open>remove_k8s_extentions\<close> only deletes mapping entries. Whatever stands at a path
  of the result stood at that path before the call; a mapping of the result has no key that
  the mapping at its place did not have, a mapping stays a mapping and nothing else becomes
  one, and a scalar or a sequence is identical to what stood there.
\<close>

theorem remove_k8s_extentions_only_deletes:
  "at_path (remove_k8s_extentions t) p = Some r \<Longrightarrow>
     \<exists>orig. at_path t p = Some orig \<and> set (keys r) \<subseteq> set (keys orig)
        \<and> is_mapping r = is_mapping orig \<and> (\<not> is_mapping orig \<longrightarrow> r = orig)"
proof -
  assume "at_path (remove_k8s_extentions t) p = Some r"
  from at_path_remove_origin[OF this] obtain orig where o: "at_path t p = Some orig"
    and ro: "r = orig \<or> r = remove_k8s_extentions orig" by blast
  from ro have "set (keys r) \<subseteq> set (keys orig) \<and> is_mapping r = is_mapping orig
      \<and> (\<not> is_mapping orig \<longrightarrow> r = orig)"
    using keys_remove_subset[of orig] is_mapping_remove[of orig] remove_not_mapping[of orig]
    by auto
  with o show ?thesis by blast
qed

theorem remove_k8s_extentions_only_deletes_witness:
  "at_path (remove_k8s_extentions (Mapping [(''properties'',
          Mapping [(''x-kubernetes-list-type'', Scalar (SStr ''set'')),
                   (''x-kubernetes-foo'', Scalar SNull)])])) [Key ''properties'']
     = Some (Mapping [(''x-kubernetes-list-type'', Scalar (SStr ''set''))])
   \<and> (\<exists>orig. at_path (Mapping [(''properties'',
          Mapping [(''x-kubernetes-list-type'', Scalar (SStr ''set'')),
                   (''x-kubernetes-foo'', Scalar SNull)])]) [Key ''properties''] = Some orig
        \<and> set (keys (Mapping [(''x-kubernetes-list-type'', Scalar (SStr ''set''))]))
            \<subseteq> set (keys orig)
        \<and> is_mapping orig)"
  using remove_k8s_extentions_only_deletes
    [of "Mapping [(''properties'',
          Mapping [(''x-kubernetes-list-type'', Scalar (SStr ''set'')),
                   (''x-kubernetes-foo'', Scalar SNull)])]" "[Key ''properties'']"
        "Mapping [(''x-kubernetes-list-type'', Scalar (SStr ''set''))]"]
  by (simp add: K8S_SCHEMA_EXTENSIONS_def)

section \<open>Properties of the description pruner\<close>

lemma wf_items_member: "wf_items kvs \<Longrightarrow> (k, v) \<in> set kvs \<Longrightarrow> wf_tree v"
  by (induction kvs) auto

lemma remove_k8s_descriptions_items_self:
  "\<forall>kv \<in> set kvs. map_of src (fst kv) = Some (snd kv)
        \<and> remove_k8s_descriptions (snd kv) (snd kv) = snd kv \<Longrightarrow>
   remove_k8s_descriptions_items kvs (Mapping src) = kvs"
  by (induction kvs) auto

text \<open>
  Claim C5: with the source \<open>{a: {description: kept}}\<close>, the resolved tree
  \<open>{a: {description: kept, b: {description: imported}}}\<close> becomes
  \<open>{a: {description: kept, b: {}}}\<close>.
\<close>

theorem remove_k8s_descriptions_provenance:
  "remove_k8s_descriptions
     (Mapping [(''a'', Mapping [(''description'', Scalar (SStr ''kept'')),
                                (''b'', Mapping [(''description'', Scalar (SStr ''imported''))])])])
     (Mapping [(''a'', Mapping [(''description'', Scalar (SStr ''kept''))])])
   = Mapping [(''a'', Mapping [(''description'', Scalar (SStr ''kept'')), (''b'', Mapping [])])]"
  by simp

text \<open>
  Claim C9: \<open>remove_k8s_descriptions\<close> with the tree itself as the source leaves the tree
  unchanged, for every tree whose mappings hold each key once.
\<close>

theorem remove_k8s_descriptions_same_source:
  "wf_tree S \<Longrightarrow> remove_k8s_descriptions S S = S"
proof (induction S)
  case (Scalar s)
  show ?case by simp
next
  case (Sequence xs)
  show ?case by simp
next
  case (Mapping kvs)
  from Mapping.prems have d: "distinct (map fst kvs)" and w: "wf_items kvs" by auto
  have "map_of kvs (fst kv) = Some (snd kv)
      \<and> remove_k8s_descriptions (snd kv) (snd kv) = snd kv" if kv: "kv \<in> set kvs" for kv
  proof
    from d kv show "map_of kvs (fst kv) = Some (snd kv)" by simp
    from w kv have "wf_tree (snd kv)" using wf_items_member[of kvs "fst kv" "snd kv"] by simp
    moreover have "snd kv \<in> Basic_BNFs.snds kv" by (cases kv) simp
    ultimately show "remove_k8s_descriptions (snd kv) (snd kv) = snd kv"
      using kv Mapping.IH[of kv "snd kv"] by simp
  qed
  then have "remove_k8s_descriptions_items kvs (Mapping kvs) = kvs"
    using remove_k8s_descriptions_items_self[of kvs kvs] by blast
  then show ?case by simp
qed

theorem remove_k8s_descriptions_same_source_witness:
  "wf_tree (Mapping [(''description'', Scalar (SStr ''top'')),
                     (''properties'', Mapping [(''spec'', Mapping
                        [(''description'', Scalar (SStr ''inner'')),
                         (''enum'', Sequence [Mapping [(''description'', Scalar SNull)]])])])])
   \<and> remove_k8s_descriptions
        (Mapping [(''description'', Scalar (SStr ''top'')),
                  (''properties'', Mapping [(''spec'', Mapping
                     [(''description'', Scalar (SStr ''inner'')),
                      (''enum'', Sequence [Mapping [(''description'', Scalar SNull)]])])])])
        (Mapping [(''description'', Scalar (SStr ''top'')),
                  (''properties'', Mapping [(''spec'', Mapping
                     [(''description'', Scalar (SStr ''inner'')),
                      (''enum'', Sequence [Mapping [(''description'', Scalar SNull)]])])])])
      = Mapping [(''description'', Scalar (SStr ''top'')),
                 (''properties'', Mapping [(''spec'', Mapping
                    [(''description'', Scalar (SStr ''inner'')),
                     (''enum'', Sequence [Mapping [(''description'', Scalar SNull)]])])])]"
  using remove_k8s_descriptions_same_source
    [of "Mapping [(''description'', Scalar (SStr ''top'')),
                  (''properties'', Mapping [(''spec'', Mapping
                     [(''description'', Scalar (SStr ''inner'')),
                      (''enum'', Sequence [Mapping [(''description'', Scalar SNull)]])])])]"]
  by simp

section \<open>Properties of schema resolution\<close>

text \<open>
  Both pruners only delete: a key found after them was in the tree before. So a key in the
  result of \<open>parse_and_resolve\<close> is a key of the specification the resolving parser returned.
\<close>

lemma has_key_after_extentions:
  "has_key K (remove_k8s_extentions t) \<Longrightarrow> has_key K t"
  "has_key_items K (remove_k8s_extentions_items kvs) \<Longrightarrow> has_key_items K kvs"
  by (induction t and kvs rule: remove_k8s_extentions_remove_k8s_extentions_items.induct)
     (auto split: if_splits)

lemma has_key_after_descriptions:
  "has_key K (remove_k8s_descriptions t src) \<Longrightarrow> has_key K t"
  "has_key_items K (remove_k8s_descriptions_items kvs src) \<Longrightarrow> has_key_items K kvs"
  by (induction t src and kvs src
        rule: remove_k8s_descriptions_remove_k8s_descriptions_items.induct)
     (auto split: if_splits option.splits)

lemma has_key_items_value:
  "map_of kvs k = Some v \<Longrightarrow> has_key K v \<Longrightarrow> has_key_items K kvs"
  by (induction kvs) (auto split: if_splits)

lemma getitem_Inr:
  "getitem t k = Inr v \<Longrightarrow> \<exists>kvs. t = Mapping kvs \<and> map_of kvs k = Some v"
  by (induction t k rule: getitem.induct) (auto split: option.splits)

lemma has_key_getitem: "getitem t k = Inr v \<Longrightarrow> has_key K v \<Longrightarrow> has_key K t"
  by (auto dest!: getitem_Inr dest: has_key_items_value)

lemma parse_and_resolve_adds_no_key:
  assumes "parse_and_resolve lib schema remove_desciptions = Inr resolved"
    and "has_key K resolved"
  shows "\<exists>dumped parsed. ResolvingParser lib dumped = Inr parsed \<and> has_key K parsed"
proof -
  from assms(1) obtain dumped parsed components schemas raw where
    p: "ResolvingParser lib dumped = Inr parsed"
    and c: "getitem parsed ''components'' = Inr components"
    and s: "getitem components ''schemas'' = Inr schemas"
    and r: "getitem schemas ''crd_schema'' = Inr raw"
    and out: "resolved = (if remove_desciptions
        then remove_k8s_descriptions (remove_k8s_extentions raw) schema
        else remove_k8s_extentions raw)"
    by (auto simp: parse_and_resolve_def bind_result_def OPENAPI_V3_SKELETON_def Let_def
          split: sum.splits)
  from out assms(2) have "has_key K raw"
    by (auto split: if_splits dest: has_key_after_descriptions(1) has_key_after_extentions(1))
  with r s c have "has_key K parsed" by (blast intro: has_key_getitem)
  with p show ?thesis by blast
qed

section \<open>Properties of the driver\<close>

text \<open>
  Claim C1 says that a JSON Patch file given to \<open>resolve\<close> is applied to the document before
  it is serialized. The code does not do so: line 109 sets \<open>jsonpatch\<close> to \<open>None\<close>, so the file
  is never opened and the call behaves, for every input, as the call without a patch.
\<close>

theorem resolve_ignores_jsonpatch:
  "resolved_document lib w source jsonpatch remove_descriptions
     = resolved_document lib w source None remove_descriptions
   \<and> resolve lib w source destination jsonpatch remove_descriptions
     = resolve lib w source destination None remove_descriptions"
  by (simp add: resolve_def resolved_document_def)

text \<open>
  On the example document, the patch \<open>[{op: add, path: /metadata/labels/foo, value: bar}]\<close>
  would give the document with the label; the document that \<open>resolve\<close> serializes is the
  one without it.
\<close>

theorem resolve_ignores_jsonpatch_witness:
  "resolved_document (example_library (example_crd ''apiextensions.k8s.io/v1'')) example_world
      ''crd.yaml'' (Some ''patch.json'') False
     = Inr (example_crd ''apiextensions.k8s.io/v1'')
   \<and> JsonPatch_apply (example_library (example_crd ''apiextensions.k8s.io/v1'')) example_patch
        (example_crd ''apiextensions.k8s.io/v1'') = Inr example_crd_patched
   \<and> example_crd ''apiextensions.k8s.io/v1'' \<noteq> example_crd_patched
   \<and> resolve (example_library (example_crd ''apiextensions.k8s.io/v1'')) example_world
        ''crd.yaml'' ''out.yaml'' (Some ''patch.json'') False
     = resolve (example_library (example_crd ''apiextensions.k8s.io/v1'')) example_world
        ''crd.yaml'' ''out.yaml'' None False"
  using resolve_ignores_jsonpatch
    [of "example_library (example_crd ''apiextensions.k8s.io/v1'')" example_world
        "''crd.yaml''" "Some ''patch.json''" False "''out.yaml''"]
  by (simp add: resolved_document_def load_source_def open_read_def load_jsonpatch_def
        apply_jsonpatch_def resolve_schemas_def parse_and_resolve_def bind_result_def
        OPENAPI_V3_SKELETON_def example_library_def example_world_def example_crd_def
        example_crd_patched_def example_schema_def)

text \<open>
  Claim C2 says that a document of kind \<open>CustomResourceDefinition\<close> with an unsupported
  \<open>apiVersion\<close> makes \<open>resolve\<close> fail with a \<open>TypeError\<close>. The code builds the message of that
  \<open>TypeError\<close> from \<open>source['version']\<close>: the \<open>TypeError\<close> is raised only when the document has
  a top-level key \<open>version\<close>, and a \<open>KeyError\<close> otherwise. Nothing is written either way.
\<close>

theorem resolve_unsupported_apiVersion:
  assumes "load_source lib w source = Inr (Mapping kvs)"
    and "map_of kvs ''kind'' = Some (Scalar (SStr ''CustomResourceDefinition''))"
    and "map_of kvs ''apiVersion'' = Some apiVersion"
    and "apiVersion \<noteq> Scalar (SStr ''apiextensions.k8s.io/v1beta1'')"
    and "apiVersion \<noteq> Scalar (SStr ''apiextensions.k8s.io/v1'')"
  shows "resolve lib w source destination jsonpatch remove_descriptions
           = ((case map_of kvs ''version'' of
                 None \<Rightarrow> Inl (KeyError ''version'')
               | Some version \<Rightarrow>
                   Inl (TypeError (''Unsupported CRD version '' @ str_format lib version))), w)"
  using assms
  by (simp add: resolve_def resolved_document_def bind_result_def load_jsonpatch_def
        resolve_schemas_def split: option.splits)

theorem resolve_unsupported_apiVersion_witness:
  "resolve (example_library (example_crd ''apiextensions.k8s.io/v2'')) example_world
      ''crd.yaml'' ''out.yaml'' None False
     = (Inl (KeyError ''version''), example_world)"
  using resolve_unsupported_apiVersion
    [of "example_library (example_crd ''apiextensions.k8s.io/v2'')" example_world "''crd.yaml''"
        "[(''apiVersion'', Scalar (SStr ''apiextensions.k8s.io/v2'')),
          (''kind'', Scalar (SStr ''CustomResourceDefinition'')),
          (''metadata'', Mapping [(''name'', Scalar (SStr ''widgets.example.com'')),
                                  (''labels'', Mapping [])]),
          (''spec'', Mapping [(''group'', Scalar (SStr ''example.com'')),
             (''versions'', Sequence [Mapping [(''name'', Scalar (SStr ''v1'')),
                (''schema'', Mapping [(''openAPIV3Schema'', example_schema)])]])])]"
        "Scalar (SStr ''apiextensions.k8s.io/v2'')" "''out.yaml''" None False]
  by (simp add: load_source_def open_read_def bind_result_def example_library_def
        example_world_def example_crd_def)

text \<open>
  Claim C6: for a loaded document that has a \<open>kind\<close> other than \<open>CustomResourceDefinition\<close>,
  \<open>resolve\<close> raises the \<open>TypeError\<close> of line 115 and leaves the file system as it was: nothing
  is written to the destination.
\<close>

theorem resolve_wrong_kind:
  assumes "load_source lib w source = Inr document"
    and "getitem document ''kind'' = Inr kind"
    and "kind \<noteq> Scalar (SStr ''CustomResourceDefinition'')"
  shows "resolve lib w source destination jsonpatch remove_descriptions
           = (Inl (TypeError ''Input file is not a CustomResourceDefinition.''), w)"
  using assms
  by (simp add: resolve_def resolved_document_def bind_result_def load_jsonpatch_def
        resolve_schemas_def)

theorem resolve_wrong_kind_witness:
  "load_source (example_library example_configmap) example_world ''crd.yaml''
     = Inr example_configmap
   \<and> getitem example_configmap ''kind'' = Inr (Scalar (SStr ''ConfigMap''))
   \<and> Scalar (SStr ''ConfigMap'') \<noteq> Scalar (SStr ''CustomResourceDefinition'')
   \<and> resolve (example_library example_configmap) example_world ''crd.yaml'' ''out.yaml''
        None False
     = (Inl (TypeError ''Input file is not a CustomResourceDefinition.''), example_world)
   \<and> map_of (files example_world) ''out.yaml'' = None"
  using resolve_wrong_kind
    [of "example_library example_configmap" example_world "''crd.yaml''" example_configmap
        "Scalar (SStr ''ConfigMap'')" "''out.yaml''" None False]
  by (simp add: load_source_def open_read_def bind_result_def example_library_def
        example_world_def example_configmap_def)

end
